theory Spec2Isabelle
  imports Complex_Main "HOL-Library.Word"
begin

section \<open>Data model of the relocalization node\<close>

subsection \<open>Eigen values\<close>

text \<open>
  Scalars are real numbers. Fixed-size Eigen matrices are tuples of rows.
  \<open>Eigen::Isometry3d\<close> is \<open>Transform<double,3,Isometry>\<close>: a linear part and a
  translation; its \<open>matrix()\<close> is the homogeneous 4x4 matrix whose last row is
  \<open>[0 0 0 1]\<close>.
\<close>

type_synonym Vector3 = "real \<times> real \<times> real"
type_synonym Vector4 = "real \<times> real \<times> real \<times> real"
type_synonym Matrix3 = "Vector3 \<times> Vector3 \<times> Vector3"
type_synonym Matrix4 = "Vector4 \<times> Vector4 \<times> Vector4 \<times> Vector4"

record Isometry3d =
  linear_part :: Matrix3
  translation_part :: Vector3

definition Isometry3d_Identity :: Isometry3d where
  "Isometry3d_Identity =
     \<lparr>linear_part = ((1, 0, 0), (0, 1, 0), (0, 0, 1)), translation_part = (0, 0, 0)\<rparr>"

fun homogeneous :: "Matrix3 \<Rightarrow> Vector3 \<Rightarrow> Matrix4" where
  "homogeneous ((a, b, c), (d, e, f), (g, h, i)) (x, y, z) =
     ((a, b, c, x), (d, e, f, y), (g, h, i, z), (0, 0, 0, 1))"

definition matrix :: "Isometry3d \<Rightarrow> Matrix4" where
  "matrix T = homogeneous (linear_part T) (translation_part T)"

text \<open>\<open>m.cast<float>()\<close>: every coefficient goes through the scalar conversion.\<close>

fun cast_row :: "(real \<Rightarrow> real) \<Rightarrow> Vector4 \<Rightarrow> Vector4" where
  "cast_row c (a, b, d, e) = (c a, c b, c d, c e)"

fun cast_matrix :: "(real \<Rightarrow> real) \<Rightarrow> Matrix4 \<Rightarrow> Matrix4" where
  "cast_matrix c (r0, r1, r2, r3) = (cast_row c r0, cast_row c r1, cast_row c r2, cast_row c r3)"

text \<open>
  \<open>DenseBase::isZero(prec)\<close> with the default precision of \<open>float\<close>
  (\<open>NumTraits<float>::dummy_precision()\<close>, 1e-5): every coefficient \<open>x\<close> satisfies
  \<open>abs x \<le> abs 1 * prec\<close>.
\<close>

definition dummy_precision :: real where
  "dummy_precision = 1 / 100000"

fun isZero_row :: "Vector4 \<Rightarrow> bool" where
  "isZero_row (a, b, c, d) =
     (\<bar>a\<bar> \<le> dummy_precision \<and> \<bar>b\<bar> \<le> dummy_precision \<and>
      \<bar>c\<bar> \<le> dummy_precision \<and> \<bar>d\<bar> \<le> dummy_precision)"

fun isZero :: "Matrix4 \<Rightarrow> bool" where
  "isZero (r0, r1, r2, r3) = (isZero_row r0 \<and> isZero_row r1 \<and> isZero_row r2 \<and> isZero_row r3)"

text \<open>\<open>block<3,1>(0,3)\<close> and \<open>block<3,3>(0,0)\<close> of a 4x4 matrix, and its last row.\<close>

fun block_3_1 :: "Matrix4 \<Rightarrow> Vector3" where
  "block_3_1 ((a, b, c, x), (d, e, f, y), (g, h, i, z), r3) = (x, y, z)"

fun block_3_3 :: "Matrix4 \<Rightarrow> Matrix3" where
  "block_3_3 ((a, b, c, x), (d, e, f, y), (g, h, i, z), r3) = ((a, b, c), (d, e, f), (g, h, i))"

fun bottom_row :: "Matrix4 \<Rightarrow> Vector4" where
  "bottom_row (r0, r1, r2, r3) = r3"

definition Matrix4f_Zero :: Matrix4 where
  "Matrix4f_Zero = ((0, 0, 0, 0), (0, 0, 0, 0), (0, 0, 0, 0), (0, 0, 0, 0))"

definition Matrix4f_Identity :: Matrix4 where
  "Matrix4f_Identity = ((1, 0, 0, 0), (0, 1, 0, 0), (0, 0, 1, 0), (0, 0, 0, 1))"

record Quaternionf =
  qx :: real
  qy :: real
  qz :: real
  qw :: real

subsection \<open>Clouds, messages and library objects\<close>

type_synonym PointXYZ = Vector3

text \<open>A point of \<open>pcl::PointCloud<pcl::PointCovariance>\<close>: position and covariance.\<close>

record PointCovariance =
  position :: Vector3
  cov :: Matrix4

type_synonym PointCloudXYZ = "PointXYZ list"
type_synonym PointCloudCov = "PointCovariance list"

text \<open>
  \<open>small_gicp::KdTree\<close> built by \<open>KdTreeBuilderOMP(num_threads)\<close> over a cloud: the
  index is determined by the cloud it was built over and the builder.
\<close>

datatype KdTree = KdTree (indexed_points: PointCloudCov) (builder_num_threads: int)

text \<open>\<open>builtin_interfaces/Time\<close>: \<open>int32 sec\<close> (read with \<open>sint\<close>), \<open>uint32 nanosec\<close>.\<close>

record Time =
  sec :: "32 word"
  nanosec :: "32 word"

text \<open>
  The incoming \<open>sensor_msgs/PointCloud2\<close>: the header and the payload. The payload is
  kept as the ordered list of points it encodes.
\<close>

record PointCloud2 =
  header_stamp :: Time
  header_frame_id :: string
  payload :: "PointXYZ list"

record TransformStamped =
  stamp :: Time
  frame_id :: string
  child_frame_id :: string
  transform_translation :: Vector3
  transform_rotation :: Quaternionf

text \<open>
  The fields of \<open>small_gicp::Registration\<close> that the node writes, and the fields of
  the result of \<open>align\<close> that it reads.
\<close>

record Registration =
  reduction_num_threads :: int
  rejector_max_dist_sq :: real

record RegistrationResult =
  converged :: bool
  T_target_source :: Isometry3d

subsection \<open>The libraries the node calls\<close>

text \<open>
  PCL, small\_gicp and Eigen are not part of the repository. Their functions are the
  fields of an environment:
  \<^item> \<open>loadPCDFile file cloud\<close> gives the return code and the cloud it leaves behind;
  \<^item> \<open>fromROSMsg msg\<close> gives the cloud written into \<open>*registered_scan\<close>;
  \<^item> \<open>voxelgrid_sampling_omp cloud leaf_size\<close> gives the new downsampled cloud;
  \<^item> \<open>estimate_covariances_omp cloud num_neighbors num_threads\<close> gives the cloud
    after the in-place update;
  \<^item> \<open>align reg target source target_tree init_T\<close> is \<open>reg.align(...)\<close>;
  \<^item> \<open>float_cast\<close> is the conversion of a \<open>double\<close> to \<open>float\<close>;
  \<^item> \<open>quaternion_of\<close> is the constructor of \<open>Eigen::Quaternionf\<close> from a rotation
    matrix;
  \<^item> \<open>new_Registration\<close> is the default-constructed \<open>Registration\<close>;
  \<^item> \<open>initial_scan_time\<close> is the value of the member \<open>last_scan_time\<close> before the first
    scan (its declaration is in the header of the class).
\<close>

record env =
  loadPCDFile :: "string \<Rightarrow> PointCloudXYZ \<Rightarrow> int \<times> PointCloudXYZ"
  fromROSMsg :: "PointCloud2 \<Rightarrow> PointCloudXYZ"
  voxelgrid_sampling_omp :: "PointCloudXYZ \<Rightarrow> real \<Rightarrow> PointCloudCov"
  estimate_covariances_omp :: "PointCloudCov \<Rightarrow> int \<Rightarrow> int \<Rightarrow> PointCloudCov"
  align :: "Registration \<Rightarrow> PointCloudCov \<Rightarrow> PointCloudCov \<Rightarrow> KdTree \<Rightarrow> Isometry3d
            \<Rightarrow> RegistrationResult"
  float_cast :: "real \<Rightarrow> real"
  quaternion_of :: "Matrix3 \<Rightarrow> Quaternionf"
  new_Registration :: Registration
  initial_scan_time :: Time

subsection \<open>Parameters\<close>

text \<open>
  The parameter overrides of \<open>rclcpp::NodeOptions\<close>, one optional value per declared
  parameter, of the type of its declaration. \<open>declare_parameter(name, default)\<close>
  followed by \<open>get_parameter(name, member)\<close> stores the override when there is one and
  the default otherwise.
\<close>

record NodeOptions =
  override_num_threads :: "int option"
  override_num_neighbors :: "int option"
  override_global_leaf_size :: "real option"
  override_registered_leaf_size :: "real option"
  override_max_dist_sq :: "real option"
  override_map_frame_id :: "string option"
  override_odom_frame_id :: "string option"
  override_prior_pcd_file :: "string option"

definition declare_and_get :: "'a \<Rightarrow> 'a option \<Rightarrow> 'a" where
  "declare_and_get dflt ov = (case ov of None \<Rightarrow> dflt | Some v \<Rightarrow> v)"

definition no_overrides :: NodeOptions where
  "no_overrides =
     \<lparr>override_num_threads = None, override_num_neighbors = None,
      override_global_leaf_size = None, override_registered_leaf_size = None,
      override_max_dist_sq = None, override_map_frame_id = None,
      override_odom_frame_id = None, override_prior_pcd_file = None\<rparr>"

subsection \<open>The node and what it emits\<close>

text \<open>
  The members of the class, named as in the source without the trailing underscore.
  A \<open>shared_ptr\<close> that the constructor leaves null is an \<open>option\<close>. What a callback
  logs or broadcasts is returned as a list of effects.
\<close>

record node =
  num_threads :: int
  num_neighbors :: int
  global_leaf_size :: real
  registered_leaf_size :: real
  max_dist_sq :: real
  map_frame_id :: string
  odom_frame_id :: string
  prior_pcd_file :: string
  registered_scan :: PointCloudXYZ
  global_map :: PointCloudXYZ
  register :: Registration
  target :: PointCloudCov
  target_tree :: KdTree
  source :: "PointCloudCov option"
  source_tree :: "KdTree option"
  last_scan_time :: Time
  result_T :: Matrix4

datatype log_text =
  Couldnt_read_PCD_file string
  | Loaded_global_map nat
  | GICP_did_not_converge

datatype effect =
  RCLCPP_ERROR log_text
  | RCLCPP_INFO log_text
  | RCLCPP_WARN log_text
  | sendTransform TransformStamped

text \<open>
  Modelled from the spec: the declaration of \<open>result_T\<close> is in the header of the
  class, which is not among the sources, and the constructor does not assign it. The
  latest result is "initially absent", and the publish task reads absence with
  \<open>isZero()\<close>: the member starts as the zero matrix.
\<close>

definition result_T_initial :: Matrix4 where
  "result_T_initial = Matrix4f_Zero"

section \<open>The operations\<close>

text \<open>
  \<open>loadGlobalMap\<close> reads the file into \<open>*global_map_\<close>. A return code of -1 is
  logged as an error and the function returns; any other code is followed by the
  message with the number of points. Nothing is returned to the caller.
\<close>

definition loadGlobalMap :: "env \<Rightarrow> string \<Rightarrow> PointCloudXYZ \<Rightarrow> PointCloudXYZ \<times> effect list" where
  "loadGlobalMap E file_name cloud =
     (case loadPCDFile E file_name cloud of
        (rc, cloud') \<Rightarrow>
          if rc = - 1 then (cloud', [RCLCPP_ERROR (Couldnt_read_PCD_file file_name)])
          else (cloud', [RCLCPP_INFO (Loaded_global_map (length cloud'))]))"

text \<open>
  The constructor: the eight parameters are declared with their defaults and read
  into the members; the clouds and the solver are allocated; the map is loaded; the
  target is downsampled from \<open>*global_map_\<close>, its covariances are estimated and its
  index is built; the subscription and the two timers are created. The members
  \<open>source\<close> and \<open>source_tree\<close> are not assigned. No path of the constructor fails.
  The numeric parameters are kept as the integers and reals they are given as; the
  node does no arithmetic on them.
\<close>

definition SmallGicpRelocalizationNode :: "env \<Rightarrow> NodeOptions \<Rightarrow> node \<times> effect list" where
  "SmallGicpRelocalizationNode E options =
     (let p_num_threads = declare_and_get 4 (override_num_threads options);
          p_num_neighbors = declare_and_get 20 (override_num_neighbors options);
          p_global_leaf_size = declare_and_get 0.25 (override_global_leaf_size options);
          p_registered_leaf_size = declare_and_get 0.25 (override_registered_leaf_size options);
          p_max_dist_sq = declare_and_get 1.0 (override_max_dist_sq options);
          p_map_frame_id = declare_and_get ''map'' (override_map_frame_id options);
          p_odom_frame_id = declare_and_get ''odom'' (override_odom_frame_id options);
          p_prior_pcd_file = declare_and_get '''' (override_prior_pcd_file options);
          loaded = loadGlobalMap E p_prior_pcd_file [];
          tgt = estimate_covariances_omp E
                     (voxelgrid_sampling_omp E (fst loaded) p_global_leaf_size)
                     p_num_neighbors p_num_threads
      in (\<lparr>num_threads = p_num_threads,
           num_neighbors = p_num_neighbors,
           global_leaf_size = p_global_leaf_size,
           registered_leaf_size = p_registered_leaf_size,
           max_dist_sq = p_max_dist_sq,
           map_frame_id = p_map_frame_id,
           odom_frame_id = p_odom_frame_id,
           prior_pcd_file = p_prior_pcd_file,
           registered_scan = [],
           global_map = fst loaded,
           register = new_Registration E,
           target = tgt,
           target_tree = KdTree tgt p_num_threads,
           source = None,
           source_tree = None,
           last_scan_time = initial_scan_time E,
           result_T = result_T_initial\<rparr>,
          snd loaded))"

text \<open>
  The scan callback: it records the stamp of the message, converts the message into
  \<open>*registered_scan_\<close>, and replaces \<open>source\<close> and \<open>source_tree\<close> by the downsampled
  scan with covariances and the index built over it.
\<close>

definition registeredPcdCallback :: "env \<Rightarrow> node \<Rightarrow> PointCloud2 \<Rightarrow> node \<times> effect list" where
  "registeredPcdCallback E s msg =
     (let scan = fromROSMsg E msg;
          src = estimate_covariances_omp E
                     (voxelgrid_sampling_omp E scan (registered_leaf_size s))
                     (num_neighbors s) (num_threads s)
      in (s\<lparr>last_scan_time := header_stamp msg,
            registered_scan := scan,
            source := Some src,
            source_tree := Some (KdTree src (num_threads s))\<rparr>,
          []))"

text \<open>
  The alignment cycle (every 500 ms): it returns at once when \<open>source\<close> or
  \<open>source_tree\<close> is null; otherwise it writes the two settings of the solver, aligns
  the source to the target from the identity, warns and returns when the result has
  not converged, and stores the converted matrix of the result otherwise.
\<close>

definition performRegistration :: "env \<Rightarrow> node \<Rightarrow> node \<times> effect list" where
  "performRegistration E s =
     (case source s of
        None \<Rightarrow> (s, [])
      | Some src \<Rightarrow>
          (case source_tree s of
             None \<Rightarrow> (s, [])
           | Some src_tree \<Rightarrow>
               (let reg = (register s)\<lparr>reduction_num_threads := num_threads s,
                                        rejector_max_dist_sq := max_dist_sq s\<rparr>;
                    s1 = s\<lparr>register := reg\<rparr>;
                    result = align E reg (target s) src (target_tree s) Isometry3d_Identity
                in if \<not> converged result then (s1, [RCLCPP_WARN GICP_did_not_converge])
                   else (s1\<lparr>result_T := cast_matrix (float_cast E)
                                             (matrix (T_target_source result))\<rparr>,
                         []))))"

text \<open>
  The publish tick (every 50 ms): nothing when \<open>result_T\<close> is zero; otherwise one
  transform stamped with \<open>last_scan_time\<close>, from \<open>map_frame_id\<close> to \<open>odom_frame_id\<close>,
  with the translation column and the quaternion of the rotation block of \<open>result_T\<close>.
\<close>

definition publishTransform :: "env \<Rightarrow> node \<Rightarrow> node \<times> effect list" where
  "publishTransform E s =
     (if isZero (result_T s) then (s, [])
      else (s, [sendTransform
                  \<lparr>stamp = last_scan_time s,
                   frame_id = map_frame_id s,
                   child_frame_id = odom_frame_id s,
                   transform_translation = block_3_1 (result_T s),
                   transform_rotation = quaternion_of E (block_3_3 (result_T s))\<rparr>]))"

subsection \<open>The three activities, one callback at a time\<close>

text \<open>
  After construction the node reacts to three kinds of events: a scan arrives, the
  alignment timer fires, the publish timer fires. A run takes the callbacks one at a
  time, each to completion, and collects what they emit.
\<close>

datatype event =
  Scan PointCloud2
  | RegisterTimer
  | TransformTimer

fun step :: "env \<Rightarrow> node \<Rightarrow> event \<Rightarrow> node \<times> effect list" where
  "step E s (Scan msg) = registeredPcdCallback E s msg"
| "step E s RegisterTimer = performRegistration E s"
| "step E s TransformTimer = publishTransform E s"

fun run :: "env \<Rightarrow> node \<Rightarrow> event list \<Rightarrow> node \<times> effect list" where
  "run E s [] = (s, [])"
| "run E s (ev # evs) =
     (case step E s ev of
        (s1, out1) \<Rightarrow> (case run E s1 evs of (s2, out2) \<Rightarrow> (s2, out1 @ out2)))"

section \<open>Notions used to state the properties\<close>

text \<open>
  What the solver returns in the alignment cycle fired in state \<open>s\<close>; \<open>None\<close> when
  the cycle returns before calling it.
\<close>

definition alignment_outcome :: "env \<Rightarrow> node \<Rightarrow> RegistrationResult option" where
  "alignment_outcome E s =
     (case source s of
        None \<Rightarrow> None
      | Some src \<Rightarrow>
          (case source_tree s of
             None \<Rightarrow> None
           | Some src_tree \<Rightarrow>
               Some (align E
                       ((register s)\<lparr>reduction_num_threads := num_threads s,
                                     rejector_max_dist_sq := max_dist_sq s\<rparr>)
                       (target s) src (target_tree s) Isometry3d_Identity)))"

definition cycle_converges :: "env \<Rightarrow> node \<Rightarrow> bool" where
  "cycle_converges E s =
     (case alignment_outcome E s of None \<Rightarrow> False | Some r \<Rightarrow> converged r)"

text \<open>No alignment cycle of the run converges.\<close>

fun no_convergence :: "env \<Rightarrow> node \<Rightarrow> event list \<Rightarrow> bool" where
  "no_convergence E s [] = True"
| "no_convergence E s (RegisterTimer # evs) =
     (\<not> cycle_converges E s \<and> no_convergence E (fst (performRegistration E s)) evs)"
| "no_convergence E s (ev # evs) = no_convergence E (fst (step E s ev)) evs"

text \<open>No scan arrives during the run.\<close>

fun no_scan :: "event list \<Rightarrow> bool" where
  "no_scan [] = True"
| "no_scan (Scan msg # evs) = False"
| "no_scan (ev # evs) = no_scan evs"

text \<open>The transform messages among the effects, in order.\<close>

fun transforms_sent :: "effect list \<Rightarrow> TransformStamped list" where
  "transforms_sent [] = []"
| "transforms_sent (sendTransform m # out) = m # transforms_sent out"
| "transforms_sent (e # out) = transforms_sent out"

text \<open>The messages about loading the reference map among the effects.\<close>

fun load_reports :: "effect list \<Rightarrow> effect list" where
  "load_reports [] = []"
| "load_reports (RCLCPP_ERROR (Couldnt_read_PCD_file f) # out) =
     RCLCPP_ERROR (Couldnt_read_PCD_file f) # load_reports out"
| "load_reports (RCLCPP_INFO (Loaded_global_map n) # out) =
     RCLCPP_INFO (Loaded_global_map n) # load_reports out"
| "load_reports (e # out) = load_reports out"

section \<open>A concrete environment\<close>

text \<open>
  Small stand-ins for the libraries, used to evaluate the node on concrete inputs: the
  empty file name cannot be read, every other file holds one point; downsampling keeps
  every point; the solver converges exactly when the source cloud is not empty, and
  then returns the initial guess translated by the first source point; the conversion
  to \<open>float\<close> changes nothing.
\<close>

definition demo_point :: "PointXYZ \<Rightarrow> PointCovariance" where
  "demo_point p = \<lparr>position = p, cov = Matrix4f_Zero\<rparr>"

definition demo_align ::
  "Registration \<Rightarrow> PointCloudCov \<Rightarrow> PointCloudCov \<Rightarrow> KdTree \<Rightarrow> Isometry3d \<Rightarrow> RegistrationResult" where
  "demo_align reg tgt src tree init_T =
     (case src of
        [] \<Rightarrow> \<lparr>converged = False, T_target_source = init_T\<rparr>
      | p # ps \<Rightarrow> \<lparr>converged = True, T_target_source = init_T\<lparr>translation_part := position p\<rparr>\<rparr>)"

text \<open>A solver that ignores the guess it is given and starts from the identity.\<close>

definition demo_align_cold ::
  "Registration \<Rightarrow> PointCloudCov \<Rightarrow> PointCloudCov \<Rightarrow> KdTree \<Rightarrow> Isometry3d \<Rightarrow> RegistrationResult" where
  "demo_align_cold reg tgt src tree init_T = demo_align reg tgt src tree Isometry3d_Identity"

definition quarter_turn :: Isometry3d where
  "quarter_turn =
     \<lparr>linear_part = ((0, - 1, 0), (1, 0, 0), (0, 0, 1)), translation_part = (0, 0, 0)\<rparr>"

definition demo_env :: env where
  "demo_env =
     \<lparr>loadPCDFile = (\<lambda>file_name cloud. if file_name = [] then (- 1, cloud) else (0, [(1, 2, 3)])),
      fromROSMsg = payload,
      voxelgrid_sampling_omp = (\<lambda>cloud leaf_size. map demo_point cloud),
      estimate_covariances_omp = (\<lambda>cloud k n. cloud),
      align = demo_align,
      float_cast = (\<lambda>x. x),
      quaternion_of = (\<lambda>R. \<lparr>qx = 0, qy = 0, qz = 0, qw = 1\<rparr>),
      new_Registration = \<lparr>reduction_num_threads = 4, rejector_max_dist_sq = 1\<rparr>,
      initial_scan_time = \<lparr>sec = 0, nanosec = 0\<rparr>\<rparr>"

definition demo_node :: node where
  "demo_node = fst (SmallGicpRelocalizationNode demo_env no_overrides)"

definition scan_A :: PointCloud2 where
  "scan_A = \<lparr>header_stamp = \<lparr>sec = 10, nanosec = 0\<rparr>, header_frame_id = ''odom'',
             payload = [(1, 2, 3)]\<rparr>"

definition scan_B :: PointCloud2 where
  "scan_B = \<lparr>header_stamp = \<lparr>sec = 11, nanosec = 500\<rparr>, header_frame_id = ''odom'',
             payload = [(7, 8, 9)]\<rparr>"

definition scan_empty :: PointCloud2 where
  "scan_empty = \<lparr>header_stamp = \<lparr>sec = 12, nanosec = 0\<rparr>, header_frame_id = ''odom'',
                 payload = []\<rparr>"

definition scan_origin :: PointCloud2 where
  "scan_origin = \<lparr>header_stamp = \<lparr>sec = 13, nanosec = 0\<rparr>, header_frame_id = ''odom'',
                  payload = [(0, 0, 0)]\<rparr>"

definition invalid_options :: NodeOptions where
  "invalid_options =
     \<lparr>override_num_threads = Some 0, override_num_neighbors = Some (- 3),
      override_global_leaf_size = Some (- 1), override_registered_leaf_size = Some 0,
      override_max_dist_sq = Some (- 2), override_map_frame_id = None,
      override_odom_frame_id = None, override_prior_pcd_file = Some ''map.pcd''\<rparr>"

section \<open>Basic facts\<close>

lemma run_append:
  "run E s (evs @ evs') =
     (case run E s evs of
        (s1, out1) \<Rightarrow> (case run E s1 evs' of (s2, out2) \<Rightarrow> (s2, out1 @ out2)))"
  by (induction evs arbitrary: s) (auto split: prod.splits)

lemma fst_run_append: "fst (run E s (evs @ evs')) = fst (run E (fst (run E s evs)) evs')"
  by (simp add: run_append split: prod.splits)

lemma fst_run_Cons: "fst (run E s (ev # evs)) = fst (run E (fst (step E s ev)) evs)"
  by (simp split: prod.splits)

lemma snd_run_Cons:
  "snd (run E s (ev # evs)) = snd (step E s ev) @ snd (run E (fst (step E s ev)) evs)"
  by (simp split: prod.splits)

lemma transforms_sent_append:
  "transforms_sent (out @ out') = transforms_sent out @ transforms_sent out'"
  by (induction out rule: transforms_sent.induct) auto

lemma load_reports_append: "load_reports (out @ out') = load_reports out @ load_reports out'"
  by (induction out rule: load_reports.induct) auto

text \<open>The alignment cycle, read through the solver's outcome.\<close>

lemma performRegistration_outcome:
  "performRegistration E s =
     (case alignment_outcome E s of
        None \<Rightarrow> (s, [])
      | Some r \<Rightarrow>
          if \<not> converged r
          then (s\<lparr>register := (register s)\<lparr>reduction_num_threads := num_threads s,
                                           rejector_max_dist_sq := max_dist_sq s\<rparr>\<rparr>,
                [RCLCPP_WARN GICP_did_not_converge])
          else (s\<lparr>register := (register s)\<lparr>reduction_num_threads := num_threads s,
                                           rejector_max_dist_sq := max_dist_sq s\<rparr>,
                  result_T := cast_matrix (float_cast E) (matrix (T_target_source r))\<rparr>,
                []))"
  by (simp add: performRegistration_def alignment_outcome_def Let_def split: option.splits)

lemmas node_defs =
  SmallGicpRelocalizationNode_def loadGlobalMap_def registeredPcdCallback_def
  performRegistration_def publishTransform_def declare_and_get_def no_overrides_def
  result_T_initial_def Matrix4f_Zero_def Matrix4f_Identity_def Isometry3d_Identity_def
  matrix_def dummy_precision_def alignment_outcome_def cycle_converges_def Let_def

lemmas demo_defs =
  demo_env_def demo_node_def demo_align_def demo_point_def scan_A_def scan_B_def
  scan_empty_def scan_origin_def invalid_options_def demo_align_cold_def quarter_turn_def

subsection \<open>Which callbacks write which members\<close>

lemma step_source_no_scan:
  "no_scan [ev] \<Longrightarrow>
     source (fst (step E s ev)) = source s \<and> source_tree (fst (step E s ev)) = source_tree s"
  by (cases ev) (auto simp: performRegistration_def publishTransform_def Let_def split: option.splits)

lemma run_source_no_scan: "no_scan evs \<Longrightarrow> source (fst (run E s evs)) = source s"
proof (induction evs arbitrary: s)
  case Nil
  then show ?case by simp
next
  case (Cons ev evs)
  from Cons.prems have ns: "no_scan [ev]" "no_scan evs" by (cases ev; simp)+
  show ?case
    using Cons.IH [OF ns(2)] step_source_no_scan [OF ns(1), of E s]
    by (simp add: fst_run_Cons del: run.simps)
qed

lemma constructed_source: "source (fst (SmallGicpRelocalizationNode E options)) = None"
  by (simp add: SmallGicpRelocalizationNode_def Let_def)

lemma step_keeps_configuration:
  "global_map (fst (step E s ev)) = global_map s \<and> target (fst (step E s ev)) = target s \<and>
   target_tree (fst (step E s ev)) = target_tree s \<and>
   map_frame_id (fst (step E s ev)) = map_frame_id s \<and>
   odom_frame_id (fst (step E s ev)) = odom_frame_id s"
  by (cases ev)
     (simp_all add: registeredPcdCallback_def publishTransform_def Let_def
        performRegistration_outcome split: option.splits)

lemma run_keeps_configuration:
  "global_map (fst (run E s evs)) = global_map s \<and> target (fst (run E s evs)) = target s \<and>
   target_tree (fst (run E s evs)) = target_tree s \<and>
   map_frame_id (fst (run E s evs)) = map_frame_id s \<and>
   odom_frame_id (fst (run E s evs)) = odom_frame_id s"
proof (induction evs arbitrary: s)
  case Nil
  then show ?case by simp
next
  case (Cons ev evs)
  show ?case
    using Cons.IH [of "fst (step E s ev)"] step_keeps_configuration [of E s ev]
    by (simp add: fst_run_Cons del: run.simps)
qed

lemma step_keeps_parameters:
  "num_threads (fst (step E s ev)) = num_threads s \<and>
   num_neighbors (fst (step E s ev)) = num_neighbors s \<and>
   registered_leaf_size (fst (step E s ev)) = registered_leaf_size s \<and>
   max_dist_sq (fst (step E s ev)) = max_dist_sq s"
  by (cases ev)
     (simp_all add: registeredPcdCallback_def publishTransform_def Let_def
        performRegistration_outcome split: option.splits)

lemma run_keeps_parameters:
  "num_threads (fst (run E s evs)) = num_threads s \<and>
   num_neighbors (fst (run E s evs)) = num_neighbors s \<and>
   registered_leaf_size (fst (run E s evs)) = registered_leaf_size s \<and>
   max_dist_sq (fst (run E s evs)) = max_dist_sq s"
proof (induction evs arbitrary: s)
  case Nil
  then show ?case by simp
next
  case (Cons ev evs)
  show ?case
    using Cons.IH [of "fst (step E s ev)"] step_keeps_parameters [of E s ev]
    by (simp add: fst_run_Cons del: run.simps)
qed

lemma step_keeps_source_present:
  "source s = Some a \<Longrightarrow> source_tree s = Some b \<Longrightarrow>
     \<exists>a' b'. source (fst (step E s ev)) = Some a' \<and> source_tree (fst (step E s ev)) = Some b'"
  by (cases ev)
     (simp_all add: registeredPcdCallback_def publishTransform_def Let_def
        performRegistration_outcome split: option.splits)

lemma run_keeps_source_present:
  "source s = Some a \<Longrightarrow> source_tree s = Some b \<Longrightarrow>
     \<exists>a' b'. source (fst (run E s evs)) = Some a' \<and> source_tree (fst (run E s evs)) = Some b'"
proof (induction evs arbitrary: s a b)
  case Nil
  then show ?case by simp
next
  case (Cons ev evs)
  from step_keeps_source_present [OF Cons.prems, of E ev]
  obtain a' b' where "source (fst (step E s ev)) = Some a'" "source_tree (fst (step E s ev)) = Some b'"
    by blast
  then show ?case
    using Cons.IH by (simp add: fst_run_Cons del: run.simps)
qed

lemma source_present_after_scan:
  "\<exists>a b. source (fst (run E s (evs @ Scan msg # evs'))) = Some a \<and>
         source_tree (fst (run E s (evs @ Scan msg # evs'))) = Some b"
proof -
  have "\<exists>a b. source (fst (step E (fst (run E s evs)) (Scan msg))) = Some a \<and>
              source_tree (fst (step E (fst (run E s evs)) (Scan msg))) = Some b"
    by (simp add: registeredPcdCallback_def Let_def)
  then obtain a b where
    "source (fst (step E (fst (run E s evs)) (Scan msg))) = Some a"
    "source_tree (fst (step E (fst (run E s evs)) (Scan msg))) = Some b"
    by blast
  then show ?thesis
    using run_keeps_source_present [of "fst (step E (fst (run E s evs)) (Scan msg))" a b E evs']
    by (simp add: fst_run_append fst_run_Cons del: run.simps)
qed

lemma alignment_outcome_present:
  "source s = Some src \<Longrightarrow> source_tree s = Some tr \<Longrightarrow>
     alignment_outcome E s
       = Some (align E
                 ((register s)\<lparr>reduction_num_threads := num_threads s,
                               rejector_max_dist_sq := max_dist_sq s\<rparr>)
                 (target s) src (target_tree s) Isometry3d_Identity)"
  by (simp add: alignment_outcome_def)

lemma publishTransform_effects:
  "snd (publishTransform E s) =
     (if isZero (result_T s) then []
      else [sendTransform
              \<lparr>stamp = last_scan_time s, frame_id = map_frame_id s,
               child_frame_id = odom_frame_id s,
               transform_translation = block_3_1 (result_T s),
               transform_rotation = quaternion_of E (block_3_3 (result_T s))\<rparr>])"
  by (simp add: publishTransform_def)

section \<open>Startup\<close>

text \<open>
  C9. Every parameter that is given no value takes its default, whatever values the
  other parameters are given: \<open>num_threads = 4\<close>, \<open>num_neighbors = 20\<close>,
  \<open>global_leaf_size = 0.25\<close>, \<open>registered_leaf_size = 0.25\<close>, \<open>max_dist_sq = 1.0\<close>,
  \<open>map_frame_id = "map"\<close>, \<open>odom_frame_id = "odom"\<close> and the empty \<open>prior_pcd_file\<close>.
  In particular all eight hold when no parameter is overridden.
\<close>

theorem defaults_without_overrides:
  "(override_num_threads options = None \<longrightarrow>
      num_threads (fst (SmallGicpRelocalizationNode E options)) = 4) \<and>
   (override_num_neighbors options = None \<longrightarrow>
      num_neighbors (fst (SmallGicpRelocalizationNode E options)) = 20) \<and>
   (override_global_leaf_size options = None \<longrightarrow>
      global_leaf_size (fst (SmallGicpRelocalizationNode E options)) = 0.25) \<and>
   (override_registered_leaf_size options = None \<longrightarrow>
      registered_leaf_size (fst (SmallGicpRelocalizationNode E options)) = 0.25) \<and>
   (override_max_dist_sq options = None \<longrightarrow>
      max_dist_sq (fst (SmallGicpRelocalizationNode E options)) = 1.0) \<and>
   (override_map_frame_id options = None \<longrightarrow>
      map_frame_id (fst (SmallGicpRelocalizationNode E options)) = ''map'') \<and>
   (override_odom_frame_id options = None \<longrightarrow>
      odom_frame_id (fst (SmallGicpRelocalizationNode E options)) = ''odom'') \<and>
   (override_prior_pcd_file options = None \<longrightarrow>
      prior_pcd_file (fst (SmallGicpRelocalizationNode E options)) = '''') \<and>
   num_threads (fst (SmallGicpRelocalizationNode E no_overrides)) = 4 \<and>
   num_neighbors (fst (SmallGicpRelocalizationNode E no_overrides)) = 20 \<and>
   global_leaf_size (fst (SmallGicpRelocalizationNode E no_overrides)) = 0.25 \<and>
   registered_leaf_size (fst (SmallGicpRelocalizationNode E no_overrides)) = 0.25 \<and>
   max_dist_sq (fst (SmallGicpRelocalizationNode E no_overrides)) = 1.0 \<and>
   map_frame_id (fst (SmallGicpRelocalizationNode E no_overrides)) = ''map'' \<and>
   odom_frame_id (fst (SmallGicpRelocalizationNode E no_overrides)) = ''odom'' \<and>
   prior_pcd_file (fst (SmallGicpRelocalizationNode E no_overrides)) = ''''"
  by (simp add: SmallGicpRelocalizationNode_def no_overrides_def declare_and_get_def Let_def)

theorem defaults_without_overrides_witness:
  "override_num_threads (no_overrides\<lparr>override_prior_pcd_file := Some ''map.pcd''\<rparr>) = None \<and>
   override_num_neighbors (no_overrides\<lparr>override_prior_pcd_file := Some ''map.pcd''\<rparr>) = None \<and>
   override_global_leaf_size (no_overrides\<lparr>override_prior_pcd_file := Some ''map.pcd''\<rparr>) = None \<and>
   override_registered_leaf_size (no_overrides\<lparr>override_prior_pcd_file := Some ''map.pcd''\<rparr>) = None \<and>
   override_max_dist_sq (no_overrides\<lparr>override_prior_pcd_file := Some ''map.pcd''\<rparr>) = None \<and>
   override_map_frame_id (no_overrides\<lparr>override_prior_pcd_file := Some ''map.pcd''\<rparr>) = None \<and>
   override_odom_frame_id (no_overrides\<lparr>override_prior_pcd_file := Some ''map.pcd''\<rparr>) = None \<and>
   num_threads (fst (SmallGicpRelocalizationNode demo_env
       (no_overrides\<lparr>override_prior_pcd_file := Some ''map.pcd''\<rparr>))) = 4 \<and>
   num_neighbors (fst (SmallGicpRelocalizationNode demo_env
       (no_overrides\<lparr>override_prior_pcd_file := Some ''map.pcd''\<rparr>))) = 20 \<and>
   global_leaf_size (fst (SmallGicpRelocalizationNode demo_env
       (no_overrides\<lparr>override_prior_pcd_file := Some ''map.pcd''\<rparr>))) = 0.25 \<and>
   registered_leaf_size (fst (SmallGicpRelocalizationNode demo_env
       (no_overrides\<lparr>override_prior_pcd_file := Some ''map.pcd''\<rparr>))) = 0.25 \<and>
   max_dist_sq (fst (SmallGicpRelocalizationNode demo_env
       (no_overrides\<lparr>override_prior_pcd_file := Some ''map.pcd''\<rparr>))) = 1.0 \<and>
   map_frame_id (fst (SmallGicpRelocalizationNode demo_env
       (no_overrides\<lparr>override_prior_pcd_file := Some ''map.pcd''\<rparr>))) = ''map'' \<and>
   odom_frame_id (fst (SmallGicpRelocalizationNode demo_env
       (no_overrides\<lparr>override_prior_pcd_file := Some ''map.pcd''\<rparr>))) = ''odom'' \<and>
   prior_pcd_file (fst (SmallGicpRelocalizationNode demo_env
       (no_overrides\<lparr>override_prior_pcd_file := Some ''map.pcd''\<rparr>))) = ''map.pcd'' \<and>
   override_map_frame_id invalid_options = None \<and>
   override_odom_frame_id invalid_options = None \<and>
   map_frame_id (fst (SmallGicpRelocalizationNode demo_env invalid_options)) = ''map'' \<and>
   odom_frame_id (fst (SmallGicpRelocalizationNode demo_env invalid_options)) = ''odom'' \<and>
   override_prior_pcd_file no_overrides = None \<and>
   prior_pcd_file (fst (SmallGicpRelocalizationNode demo_env no_overrides)) = ''''"
  using defaults_without_overrides
          [of "no_overrides\<lparr>override_prior_pcd_file := Some ''map.pcd''\<rparr>" demo_env]
        defaults_without_overrides [of invalid_options demo_env]
        defaults_without_overrides [of no_overrides demo_env]
  by (simp add: node_defs demo_defs)

section \<open>The alignment cycle\<close>

text \<open>
  C6. An alignment cycle fired while \<open>source\<close> or \<open>source_tree\<close> is still null returns
  at once: the node is unchanged, nothing is logged, and the solver is not consulted
  (the cycle is the same whatever \<open>align\<close> is). That is the case for every cycle of a
  run from the constructed node in which no scan has arrived yet.
\<close>

theorem cycle_without_source_is_skipped:
  "(source s = None \<or> source_tree s = None \<longrightarrow>
      performRegistration E s = (s, []) \<and> alignment_outcome E s = None \<and>
      performRegistration (E\<lparr>align := a\<rparr>) s = (s, []))
   \<and> (no_scan evs \<longrightarrow>
      performRegistration E (fst (run E (fst (SmallGicpRelocalizationNode E options)) evs))
        = (fst (run E (fst (SmallGicpRelocalizationNode E options)) evs), []))"
proof (intro conjI impI)
  assume "source s = None \<or> source_tree s = None"
  then show "performRegistration E s = (s, [])"
    by (auto simp: performRegistration_def split: option.splits)
next
  assume "source s = None \<or> source_tree s = None"
  then show "alignment_outcome E s = None"
    by (auto simp: alignment_outcome_def split: option.splits)
next
  assume "source s = None \<or> source_tree s = None"
  then show "performRegistration (E\<lparr>align := a\<rparr>) s = (s, [])"
    by (auto simp: performRegistration_def split: option.splits)
next
  assume "no_scan evs"
  then have "source (fst (run E (fst (SmallGicpRelocalizationNode E options)) evs)) = None"
    by (simp add: run_source_no_scan constructed_source)
  then show "performRegistration E (fst (run E (fst (SmallGicpRelocalizationNode E options)) evs))
        = (fst (run E (fst (SmallGicpRelocalizationNode E options)) evs), [])"
    by (simp add: performRegistration_def)
qed

theorem cycle_without_source_is_skipped_witness:
  "source demo_node = None \<and> no_scan [RegisterTimer, TransformTimer] \<and>
   performRegistration demo_env demo_node = (demo_node, []) \<and>
   performRegistration demo_env (fst (run demo_env demo_node [RegisterTimer, TransformTimer]))
     = (fst (run demo_env demo_node [RegisterTimer, TransformTimer]), [])"
  using cycle_without_source_is_skipped
          [of demo_node demo_env demo_align "[RegisterTimer, TransformTimer]" no_overrides]
  by (simp add: node_defs demo_defs)

subsection \<open>The stored result along a run\<close>

lemma performRegistration_result_T:
  "result_T (fst (performRegistration E s)) =
     (case alignment_outcome E s of
        None \<Rightarrow> result_T s
      | Some r \<Rightarrow> if converged r then cast_matrix (float_cast E) (matrix (T_target_source r))
                  else result_T s)"
  by (simp add: performRegistration_outcome split: option.splits)

lemma performRegistration_keeps_publication:
  "last_scan_time (fst (performRegistration E s)) = last_scan_time s \<and>
   map_frame_id (fst (performRegistration E s)) = map_frame_id s \<and>
   odom_frame_id (fst (performRegistration E s)) = odom_frame_id s"
  by (simp add: performRegistration_outcome split: option.splits)

lemma callback_result_T: "result_T (fst (registeredPcdCallback E s msg)) = result_T s"
  by (simp add: registeredPcdCallback_def Let_def)

lemma publishTransform_state: "fst (publishTransform E s) = s"
  by (simp add: publishTransform_def)

lemma step_result_T_cases:
  "result_T (fst (step E s ev)) = result_T s \<or>
   (ev = RegisterTimer \<and>
    (\<exists>r. alignment_outcome E s = Some r \<and> converged r \<and>
         result_T (fst (step E s ev)) = cast_matrix (float_cast E) (matrix (T_target_source r))))"
  by (cases ev)
     (auto simp: callback_result_T publishTransform_state performRegistration_result_T
           split: option.splits)

lemma no_convergence_Cons:
  "no_convergence E s (ev # evs) =
     ((if ev = RegisterTimer then \<not> cycle_converges E s else True) \<and>
      no_convergence E (fst (step E s ev)) evs)"
  by (cases ev) simp_all

lemma step_result_T_no_convergence:
  "no_convergence E s [ev] \<Longrightarrow> result_T (fst (step E s ev)) = result_T s"
  using step_result_T_cases [of E s ev]
  by (auto simp: no_convergence_Cons cycle_converges_def split: if_splits)

lemma run_result_T_no_convergence:
  "no_convergence E s evs \<Longrightarrow> result_T (fst (run E s evs)) = result_T s"
proof (induction evs arbitrary: s)
  case Nil
  then show ?case by simp
next
  case (Cons ev evs)
  from Cons.prems have a: "no_convergence E s [ev]" and b: "no_convergence E (fst (step E s ev)) evs"
    by (simp_all add: no_convergence_Cons)
  show ?case
    using Cons.IH [OF b] step_result_T_no_convergence [OF a]
    by (simp add: fst_run_Cons del: run.simps)
qed

lemma publishTransform_sent:
  "transforms_sent (snd (publishTransform E s)) =
     (if isZero (result_T s) then []
      else [\<lparr>stamp = last_scan_time s, frame_id = map_frame_id s,
             child_frame_id = odom_frame_id s,
             transform_translation = block_3_1 (result_T s),
             transform_rotation = quaternion_of E (block_3_3 (result_T s))\<rparr>])"
  by (simp add: publishTransform_def)

lemma step_sent_absent:
  "isZero (result_T s) \<Longrightarrow> transforms_sent (snd (step E s ev)) = []"
  by (cases ev)
     (simp_all add: publishTransform_def registeredPcdCallback_def Let_def
        performRegistration_outcome split: option.splits)

lemma run_sent_no_convergence:
  "no_convergence E s evs \<Longrightarrow> isZero (result_T s) \<Longrightarrow> transforms_sent (snd (run E s evs)) = []"
proof (induction evs arbitrary: s)
  case Nil
  then show ?case by simp
next
  case (Cons ev evs)
  from Cons.prems(1) have a: "no_convergence E s [ev]" and b: "no_convergence E (fst (step E s ev)) evs"
    by (simp_all add: no_convergence_Cons)
  have z: "isZero (result_T (fst (step E s ev)))"
    using step_result_T_no_convergence [OF a] Cons.prems(2) by simp
  show ?case
    using Cons.IH [OF b z] step_sent_absent [OF Cons.prems(2), of E ev]
    by (simp add: snd_run_Cons transforms_sent_append del: run.simps)
qed

text \<open>
  C1. An alignment cycle whose result has \<open>converged = false\<close> warns and leaves
  \<open>result_T\<close> as it was; the publish tick after it sends what it sent before it: the
  transform read from the unchanged \<open>result_T\<close>, with the stamp and frames of the
  node, or nothing when \<open>result_T\<close> is zero. Whenever a callback changes \<open>result_T\<close>,
  that callback is an alignment cycle whose solver converged, and the new value is the
  converted matrix of that result. Along a run without a convergent cycle \<open>result_T\<close>
  stays what it was and a publish tick at the end sends the translation and rotation
  of that \<open>result_T\<close> (nothing when it is zero).
\<close>

theorem nonconvergent_cycle_keeps_latest_result:
  "(alignment_outcome E s = Some r \<and> \<not> converged r \<longrightarrow>
      result_T (fst (performRegistration E s)) = result_T s \<and>
      snd (performRegistration E s) = [RCLCPP_WARN GICP_did_not_converge] \<and>
      snd (publishTransform E (fst (performRegistration E s))) = snd (publishTransform E s) \<and>
      snd (publishTransform E (fst (performRegistration E s)))
        = (if isZero (result_T s) then []
           else [sendTransform
                   \<lparr>stamp = last_scan_time s, frame_id = map_frame_id s,
                    child_frame_id = odom_frame_id s,
                    transform_translation = block_3_1 (result_T s),
                    transform_rotation = quaternion_of E (block_3_3 (result_T s))\<rparr>]))
   \<and> (result_T (fst (step E s' ev)) \<noteq> result_T s' \<longrightarrow>
      ev = RegisterTimer \<and>
      (\<exists>r'. alignment_outcome E s' = Some r' \<and> converged r' \<and>
            result_T (fst (step E s' ev))
              = cast_matrix (float_cast E) (matrix (T_target_source r'))))
   \<and> (no_convergence E s'' evs \<longrightarrow>
      result_T (fst (run E s'' evs)) = result_T s'' \<and>
      snd (publishTransform E (fst (run E s'' evs)))
        = (if isZero (result_T s'') then []
           else [sendTransform
                   \<lparr>stamp = last_scan_time (fst (run E s'' evs)), frame_id = map_frame_id s'',
                    child_frame_id = odom_frame_id s'',
                    transform_translation = block_3_1 (result_T s''),
                    transform_rotation = quaternion_of E (block_3_3 (result_T s''))\<rparr>]) \<and>
      map transform_translation (transforms_sent (snd (publishTransform E (fst (run E s'' evs)))))
        = map transform_translation (transforms_sent (snd (publishTransform E s''))) \<and>
      map transform_rotation (transforms_sent (snd (publishTransform E (fst (run E s'' evs)))))
        = map transform_rotation (transforms_sent (snd (publishTransform E s''))))"
proof (intro conjI impI)
  assume h: "alignment_outcome E s = Some r \<and> \<not> converged r"
  then show eq: "result_T (fst (performRegistration E s)) = result_T s"
    by (simp add: performRegistration_result_T)
  from h show "snd (performRegistration E s) = [RCLCPP_WARN GICP_did_not_converge]"
    by (simp add: performRegistration_outcome)
  show "snd (publishTransform E (fst (performRegistration E s))) = snd (publishTransform E s)"
    by (simp add: publishTransform_effects eq performRegistration_keeps_publication)
  show "snd (publishTransform E (fst (performRegistration E s)))
        = (if isZero (result_T s) then []
           else [sendTransform
                   \<lparr>stamp = last_scan_time s, frame_id = map_frame_id s,
                    child_frame_id = odom_frame_id s,
                    transform_translation = block_3_1 (result_T s),
                    transform_rotation = quaternion_of E (block_3_3 (result_T s))\<rparr>])"
    by (simp add: publishTransform_effects eq performRegistration_keeps_publication)
next
  assume "result_T (fst (step E s' ev)) \<noteq> result_T s'"
  with step_result_T_cases [of E s' ev]
  show "ev = RegisterTimer" and
    "\<exists>r'. alignment_outcome E s' = Some r' \<and> converged r' \<and>
          result_T (fst (step E s' ev)) = cast_matrix (float_cast E) (matrix (T_target_source r'))"
    by blast+
next
  assume n: "no_convergence E s'' evs"
  then show eq: "result_T (fst (run E s'' evs)) = result_T s''"
    by (rule run_result_T_no_convergence)
  show "snd (publishTransform E (fst (run E s'' evs)))
        = (if isZero (result_T s'') then []
           else [sendTransform
                   \<lparr>stamp = last_scan_time (fst (run E s'' evs)), frame_id = map_frame_id s'',
                    child_frame_id = odom_frame_id s'',
                    transform_translation = block_3_1 (result_T s''),
                    transform_rotation = quaternion_of E (block_3_3 (result_T s''))\<rparr>])"
    by (simp add: publishTransform_effects eq run_keeps_configuration)
  show "map transform_translation (transforms_sent (snd (publishTransform E (fst (run E s'' evs)))))
        = map transform_translation (transforms_sent (snd (publishTransform E s'')))"
    by (simp add: publishTransform_sent eq)
  show "map transform_rotation (transforms_sent (snd (publishTransform E (fst (run E s'' evs)))))
        = map transform_rotation (transforms_sent (snd (publishTransform E s'')))"
    by (simp add: publishTransform_sent eq)
qed

theorem nonconvergent_cycle_keeps_latest_result_witness:
  "alignment_outcome demo_env (fst (run demo_env demo_node [Scan scan_A, RegisterTimer, Scan scan_empty]))
     = Some \<lparr>converged = False, T_target_source = Isometry3d_Identity\<rparr> \<and>
   result_T (fst (performRegistration demo_env
        (fst (run demo_env demo_node [Scan scan_A, RegisterTimer, Scan scan_empty]))))
     = ((1, 0, 0, 1), (0, 1, 0, 2), (0, 0, 1, 3), (0, 0, 0, 1)) \<and>
   result_T (fst (run demo_env demo_node [Scan scan_A, RegisterTimer, Scan scan_empty]))
     = ((1, 0, 0, 1), (0, 1, 0, 2), (0, 0, 1, 3), (0, 0, 0, 1)) \<and>
   snd (publishTransform demo_env (fst (performRegistration demo_env
        (fst (run demo_env demo_node [Scan scan_A, RegisterTimer, Scan scan_empty])))))
     = [sendTransform
          \<lparr>stamp = \<lparr>sec = 12, nanosec = 0\<rparr>, frame_id = ''map'', child_frame_id = ''odom'',
           transform_translation = (1, 2, 3),
           transform_rotation = \<lparr>qx = 0, qy = 0, qz = 0, qw = 1\<rparr>\<rparr>] \<and>
   snd (run demo_env demo_node
          [Scan scan_A, RegisterTimer, Scan scan_empty, RegisterTimer, TransformTimer])
     = [RCLCPP_WARN GICP_did_not_converge,
        sendTransform
          \<lparr>stamp = \<lparr>sec = 12, nanosec = 0\<rparr>, frame_id = ''map'', child_frame_id = ''odom'',
           transform_translation = (1, 2, 3),
           transform_rotation = \<lparr>qx = 0, qy = 0, qz = 0, qw = 1\<rparr>\<rparr>] \<and>
   result_T (fst (step demo_env (fst (run demo_env demo_node [Scan scan_A])) RegisterTimer))
     \<noteq> result_T (fst (run demo_env demo_node [Scan scan_A])) \<and>
   no_convergence demo_env (fst (run demo_env demo_node [Scan scan_A, RegisterTimer]))
     [Scan scan_empty, RegisterTimer, TransformTimer] \<and>
   result_T (fst (run demo_env (fst (run demo_env demo_node [Scan scan_A, RegisterTimer]))
                    [Scan scan_empty, RegisterTimer, TransformTimer]))
     = ((1, 0, 0, 1), (0, 1, 0, 2), (0, 0, 1, 3), (0, 0, 0, 1)) \<and>
   snd (publishTransform demo_env
          (fst (run demo_env (fst (run demo_env demo_node [Scan scan_A, RegisterTimer]))
                  [Scan scan_empty, RegisterTimer, TransformTimer])))
     = [sendTransform
          \<lparr>stamp = \<lparr>sec = 12, nanosec = 0\<rparr>, frame_id = ''map'', child_frame_id = ''odom'',
           transform_translation = (1, 2, 3),
           transform_rotation = \<lparr>qx = 0, qy = 0, qz = 0, qw = 1\<rparr>\<rparr>] \<and>
   no_convergence demo_env demo_node [Scan scan_empty, RegisterTimer, TransformTimer] \<and>
   snd (run demo_env demo_node [Scan scan_empty, RegisterTimer, TransformTimer])
     = [RCLCPP_WARN GICP_did_not_converge]"
  using nonconvergent_cycle_keeps_latest_result
          [of demo_env "fst (run demo_env demo_node [Scan scan_A, RegisterTimer, Scan scan_empty])"
              "\<lparr>converged = False, T_target_source = Isometry3d_Identity\<rparr>"
              "fst (run demo_env demo_node [Scan scan_A])" RegisterTimer
              "fst (run demo_env demo_node [Scan scan_A, RegisterTimer])"
              "[Scan scan_empty, RegisterTimer, TransformTimer]"]
  by (simp add: node_defs demo_defs)

section \<open>Absence and the published transform\<close>

lemma constructed_result_T:
  "result_T (fst (SmallGicpRelocalizationNode E options)) = result_T_initial"
  by (simp add: SmallGicpRelocalizationNode_def Let_def)

lemma isZero_initial: "isZero result_T_initial"
  by (simp add: result_T_initial_def Matrix4f_Zero_def dummy_precision_def)

lemma bottom_row_cast_matrix:
  "bottom_row (cast_matrix c (matrix T)) = (c 0, c 0, c 0, c 1)"
  by (cases "linear_part T" rule: prod_cases3; cases "translation_part T" rule: prod_cases3)
     (auto simp: matrix_def)

lemma bottom_row_not_isZero: "bottom_row M = (a, b, c, 1) \<Longrightarrow> \<not> isZero M"
  by (cases M rule: prod_cases4) (auto simp: dummy_precision_def)


lemma step_bottom_row:
  "float_cast E 0 = 0 \<Longrightarrow> float_cast E 1 = 1 \<Longrightarrow> bottom_row (result_T s) = (0, 0, 0, 1) \<Longrightarrow>
     bottom_row (result_T (fst (step E s ev))) = (0, 0, 0, 1)"
  using step_result_T_cases [of E s ev] by (auto simp: bottom_row_cast_matrix)

lemma run_bottom_row:
  "float_cast E 0 = 0 \<Longrightarrow> float_cast E 1 = 1 \<Longrightarrow> bottom_row (result_T s) = (0, 0, 0, 1) \<Longrightarrow>
     bottom_row (result_T (fst (run E s evs))) = (0, 0, 0, 1)"
proof (induction evs arbitrary: s)
  case Nil
  then show ?case by simp
next
  case (Cons ev evs)
  have "bottom_row (result_T (fst (step E s ev))) = (0, 0, 0, 1)"
    using Cons.prems by (rule step_bottom_row)
  then show ?case
    using Cons.IH [OF Cons.prems(1,2)] by (simp add: fst_run_Cons del: run.simps)
qed

lemma converged_cycle_result_T:
  "alignment_outcome E s = Some r \<Longrightarrow> converged r \<Longrightarrow>
     result_T (fst (performRegistration E s)) = cast_matrix (float_cast E) (matrix (T_target_source r))"
  by (simp add: performRegistration_result_T)

lemma cycle_converges_outcome:
  "cycle_converges E s = (\<exists>r. alignment_outcome E s = Some r \<and> converged r)"
  by (simp add: cycle_converges_def split: option.splits)

lemma converged_cycle_not_isZero:
  assumes "float_cast E 1 = 1" and "cycle_converges E s"
  shows "\<not> isZero (result_T (fst (performRegistration E s)))"
proof -
  from assms(2) obtain r where r: "alignment_outcome E s = Some r" "converged r"
    by (auto simp: cycle_converges_outcome)
  have "bottom_row (result_T (fst (performRegistration E s)))
          = (float_cast E 0, float_cast E 0, float_cast E 0, 1)"
    using assms(1) by (simp add: converged_cycle_result_T [OF r] bottom_row_cast_matrix)
  then show ?thesis by (rule bottom_row_not_isZero)
qed

lemma converged_cycle_is_published:
  assumes "float_cast E 1 = 1" and "cycle_converges E s"
  shows "\<exists>m. snd (publishTransform E (fst (performRegistration E s))) = [sendTransform m]"
  using converged_cycle_not_isZero [OF assms] by (simp add: publishTransform_def)



text \<open>
  C10. The initial \<open>result_T\<close> is the zero matrix, which \<open>isZero\<close> accepts, and the
  publish task sends nothing on the constructed node. The matrix stored by a convergent
  cycle has the last row \<open>(0, 0, 0, 1)\<close>; after it, whatever callbacks follow, the
  last row is still \<open>(0, 0, 0, 1)\<close>, \<open>isZero\<close> is false and a publish tick sends one
  transform. The conversion to \<open>float\<close> is assumed to keep 0 and 1.
\<close>

theorem converged_result_never_reads_absent:
  "isZero result_T_initial
   \<and> snd (publishTransform E (fst (SmallGicpRelocalizationNode E options))) = []
   \<and> (float_cast E 0 = 0 \<and> float_cast E 1 = 1 \<and> cycle_converges E s \<longrightarrow>
      bottom_row (result_T (fst (performRegistration E s))) = (0, 0, 0, 1) \<and>
      (\<forall>evs. bottom_row (result_T (fst (run E (fst (performRegistration E s)) evs))) = (0, 0, 0, 1) \<and>
             \<not> isZero (result_T (fst (run E (fst (performRegistration E s)) evs))) \<and>
             (\<exists>m. snd (publishTransform E (fst (run E (fst (performRegistration E s)) evs)))
                    = [sendTransform m])))"
proof (intro conjI impI allI)
  show "isZero result_T_initial" by (rule isZero_initial)
  show "snd (publishTransform E (fst (SmallGicpRelocalizationNode E options))) = []"
    by (simp add: publishTransform_def constructed_result_T isZero_initial)
next
  assume h: "float_cast E 0 = 0 \<and> float_cast E 1 = 1 \<and> cycle_converges E s"
  then obtain r where r: "alignment_outcome E s = Some r" "converged r"
    by (auto simp: cycle_converges_outcome)
  from h show b: "bottom_row (result_T (fst (performRegistration E s))) = (0, 0, 0, 1)"
    by (simp add: converged_cycle_result_T [OF r] bottom_row_cast_matrix)
  fix evs
  from h b show br: "bottom_row (result_T (fst (run E (fst (performRegistration E s)) evs))) = (0, 0, 0, 1)"
    by (simp add: run_bottom_row)
  then show nz: "\<not> isZero (result_T (fst (run E (fst (performRegistration E s)) evs)))"
    by (rule bottom_row_not_isZero)
  then show "\<exists>m. snd (publishTransform E (fst (run E (fst (performRegistration E s)) evs)))
                    = [sendTransform m]"
    by (simp add: publishTransform_def)
qed

theorem converged_result_never_reads_absent_witness:
  "float_cast demo_env 0 = 0 \<and> float_cast demo_env 1 = 1 \<and>
   cycle_converges demo_env (fst (run demo_env demo_node [Scan scan_A])) \<and>
   bottom_row (result_T (fst (performRegistration demo_env (fst (run demo_env demo_node [Scan scan_A])))))
     = (0, 0, 0, 1) \<and>
   \<not> isZero (result_T (fst (run demo_env
        (fst (performRegistration demo_env (fst (run demo_env demo_node [Scan scan_A]))))
        [Scan scan_empty, RegisterTimer, TransformTimer]))) \<and>
   transforms_sent (snd (publishTransform demo_env (fst (run demo_env
        (fst (performRegistration demo_env (fst (run demo_env demo_node [Scan scan_A]))))
        [Scan scan_empty, RegisterTimer, TransformTimer]))))
     = [\<lparr>stamp = \<lparr>sec = 12, nanosec = 0\<rparr>, frame_id = ''map'', child_frame_id = ''odom'',
         transform_translation = (1, 2, 3),
         transform_rotation = \<lparr>qx = 0, qy = 0, qz = 0, qw = 1\<rparr>\<rparr>]"
  using converged_result_never_reads_absent
          [of demo_env no_overrides "fst (run demo_env demo_node [Scan scan_A])"]
  by (simp add: node_defs demo_defs)

section \<open>A reference map that cannot be loaded\<close>

lemma step_load_reports: "load_reports (snd (step E s ev)) = []"
  by (cases ev)
     (simp_all add: registeredPcdCallback_def publishTransform_def Let_def
        performRegistration_outcome split: option.splits)

lemma run_load_reports: "load_reports (snd (run E s evs)) = []"
proof (induction evs arbitrary: s)
  case Nil
  then show ?case by simp
next
  case (Cons ev evs)
  show ?case
    using Cons.IH [of "fst (step E s ev)"] step_load_reports [of E s ev]
    by (simp add: snd_run_Cons load_reports_append del: run.simps)
qed

lemma performRegistration_by_outcome:
  "alignment_outcome E s = Some r \<Longrightarrow>
     (if converged r
      then result_T (fst (performRegistration E s))
             = cast_matrix (float_cast E) (matrix (T_target_source r)) \<and>
           snd (performRegistration E s) = []
      else result_T (fst (performRegistration E s)) = result_T s \<and>
           snd (performRegistration E s) = [RCLCPP_WARN GICP_did_not_converge])"
  by (simp add: performRegistration_outcome)

text \<open>
  C3, as the code has it. When \<open>loadPCDFile\<close> returns -1 the constructor reports one
  error and still returns the node. Nothing is retried: whatever callbacks follow,
  \<open>global_map\<close> is the cloud the failed load left, \<open>target\<close> and \<open>target_tree\<close> are the
  ones built from it by the constructor, and no further load report appears. The
  alignment is not switched off: in every cycle fired once a scan has arrived,
  whatever callbacks came in between, the solver is called on the current source
  against that target, and its result is handled as always (stored when it converged,
  a warning otherwise); a stored result is sent by the publish tick that follows (the
  conversion to \<open>float\<close> is assumed to keep 1).
\<close>

theorem failed_map_load_keeps_pipeline_running:
  "fst (loadPCDFile E (declare_and_get '''' (override_prior_pcd_file options)) []) = - 1 \<longrightarrow>
     snd (SmallGicpRelocalizationNode E options)
       = [RCLCPP_ERROR (Couldnt_read_PCD_file (declare_and_get '''' (override_prior_pcd_file options)))]
     \<and> (\<forall>evs.
          global_map (fst (run E (fst (SmallGicpRelocalizationNode E options)) evs))
            = snd (loadPCDFile E (declare_and_get '''' (override_prior_pcd_file options)) []) \<and>
          target (fst (run E (fst (SmallGicpRelocalizationNode E options)) evs))
            = target (fst (SmallGicpRelocalizationNode E options)) \<and>
          target_tree (fst (run E (fst (SmallGicpRelocalizationNode E options)) evs))
            = target_tree (fst (SmallGicpRelocalizationNode E options)) \<and>
          load_reports (snd (run E (fst (SmallGicpRelocalizationNode E options)) evs)) = [])
     \<and> (\<forall>evs msg evs'. \<exists>r src.
          source (fst (run E (fst (SmallGicpRelocalizationNode E options)) (evs @ Scan msg # evs'))) = Some src \<and>
          alignment_outcome E (fst (run E (fst (SmallGicpRelocalizationNode E options)) (evs @ Scan msg # evs')))
            = Some r \<and>
          r = align E
                ((register (fst (run E (fst (SmallGicpRelocalizationNode E options)) (evs @ Scan msg # evs'))))
                   \<lparr>reduction_num_threads := num_threads (fst (run E (fst (SmallGicpRelocalizationNode E options)) (evs @ Scan msg # evs'))),
                    rejector_max_dist_sq := max_dist_sq (fst (run E (fst (SmallGicpRelocalizationNode E options)) (evs @ Scan msg # evs')))\<rparr>)
                (target (fst (SmallGicpRelocalizationNode E options))) src (target_tree (fst (SmallGicpRelocalizationNode E options))) Isometry3d_Identity \<and>
          (if converged r
           then result_T (fst (performRegistration E (fst (run E (fst (SmallGicpRelocalizationNode E options)) (evs @ Scan msg # evs')))))
                  = cast_matrix (float_cast E) (matrix (T_target_source r)) \<and>
                snd (performRegistration E (fst (run E (fst (SmallGicpRelocalizationNode E options)) (evs @ Scan msg # evs')))) = []
           else result_T (fst (performRegistration E (fst (run E (fst (SmallGicpRelocalizationNode E options)) (evs @ Scan msg # evs')))))
                  = result_T (fst (run E (fst (SmallGicpRelocalizationNode E options)) (evs @ Scan msg # evs'))) \<and>
                snd (performRegistration E (fst (run E (fst (SmallGicpRelocalizationNode E options)) (evs @ Scan msg # evs'))))
                  = [RCLCPP_WARN GICP_did_not_converge]))
     \<and> (\<forall>evs msg evs'.
          float_cast E 1 = 1 \<and>
          cycle_converges E (fst (run E (fst (SmallGicpRelocalizationNode E options)) (evs @ Scan msg # evs'))) \<longrightarrow>
          (\<exists>m. snd (publishTransform E (fst (performRegistration E (fst (run E (fst (SmallGicpRelocalizationNode E options)) (evs @ Scan msg # evs'))))))
                 = [sendTransform m]))"
proof (intro impI conjI allI)
  assume f: "fst (loadPCDFile E (declare_and_get '''' (override_prior_pcd_file options)) []) = - 1"
  then show "snd (SmallGicpRelocalizationNode E options)
       = [RCLCPP_ERROR (Couldnt_read_PCD_file (declare_and_get '''' (override_prior_pcd_file options)))]"
    by (auto simp: SmallGicpRelocalizationNode_def loadGlobalMap_def Let_def split: prod.splits)
  fix evs
  have g: "global_map (fst (SmallGicpRelocalizationNode E options))
             = snd (loadPCDFile E (declare_and_get '''' (override_prior_pcd_file options)) [])"
    by (simp add: SmallGicpRelocalizationNode_def loadGlobalMap_def Let_def split: prod.splits)
  show "global_map (fst (run E (fst (SmallGicpRelocalizationNode E options)) evs))
            = snd (loadPCDFile E (declare_and_get '''' (override_prior_pcd_file options)) [])"
    by (simp add: run_keeps_configuration g)
  show "target (fst (run E (fst (SmallGicpRelocalizationNode E options)) evs))
            = target (fst (SmallGicpRelocalizationNode E options))"
    by (simp add: run_keeps_configuration)
  show "target_tree (fst (run E (fst (SmallGicpRelocalizationNode E options)) evs))
            = target_tree (fst (SmallGicpRelocalizationNode E options))"
    by (simp add: run_keeps_configuration)
  show "load_reports (snd (run E (fst (SmallGicpRelocalizationNode E options)) evs)) = []"
    by (rule run_load_reports)
next
  fix evs msg evs'
  obtain src tr where p:
    "source (fst (run E (fst (SmallGicpRelocalizationNode E options)) (evs @ Scan msg # evs'))) = Some src"
    "source_tree (fst (run E (fst (SmallGicpRelocalizationNode E options)) (evs @ Scan msg # evs'))) = Some tr"
    using source_present_after_scan by blast
  define r where "r = align E
                ((register (fst (run E (fst (SmallGicpRelocalizationNode E options)) (evs @ Scan msg # evs'))))
                   \<lparr>reduction_num_threads := num_threads (fst (run E (fst (SmallGicpRelocalizationNode E options)) (evs @ Scan msg # evs'))),
                    rejector_max_dist_sq := max_dist_sq (fst (run E (fst (SmallGicpRelocalizationNode E options)) (evs @ Scan msg # evs')))\<rparr>)
                (target (fst (SmallGicpRelocalizationNode E options))) src (target_tree (fst (SmallGicpRelocalizationNode E options))) Isometry3d_Identity"
  have o: "alignment_outcome E (fst (run E (fst (SmallGicpRelocalizationNode E options)) (evs @ Scan msg # evs'))) = Some r"
    unfolding r_def by (simp add: alignment_outcome_present [OF p] run_keeps_configuration)
  show "\<exists>r src.
          source (fst (run E (fst (SmallGicpRelocalizationNode E options)) (evs @ Scan msg # evs'))) = Some src \<and>
          alignment_outcome E (fst (run E (fst (SmallGicpRelocalizationNode E options)) (evs @ Scan msg # evs')))
            = Some r \<and>
          r = align E
                ((register (fst (run E (fst (SmallGicpRelocalizationNode E options)) (evs @ Scan msg # evs'))))
                   \<lparr>reduction_num_threads := num_threads (fst (run E (fst (SmallGicpRelocalizationNode E options)) (evs @ Scan msg # evs'))),
                    rejector_max_dist_sq := max_dist_sq (fst (run E (fst (SmallGicpRelocalizationNode E options)) (evs @ Scan msg # evs')))\<rparr>)
                (target (fst (SmallGicpRelocalizationNode E options))) src (target_tree (fst (SmallGicpRelocalizationNode E options))) Isometry3d_Identity \<and>
          (if converged r
           then result_T (fst (performRegistration E (fst (run E (fst (SmallGicpRelocalizationNode E options)) (evs @ Scan msg # evs')))))
                  = cast_matrix (float_cast E) (matrix (T_target_source r)) \<and>
                snd (performRegistration E (fst (run E (fst (SmallGicpRelocalizationNode E options)) (evs @ Scan msg # evs')))) = []
           else result_T (fst (performRegistration E (fst (run E (fst (SmallGicpRelocalizationNode E options)) (evs @ Scan msg # evs')))))
                  = result_T (fst (run E (fst (SmallGicpRelocalizationNode E options)) (evs @ Scan msg # evs'))) \<and>
                snd (performRegistration E (fst (run E (fst (SmallGicpRelocalizationNode E options)) (evs @ Scan msg # evs'))))
                  = [RCLCPP_WARN GICP_did_not_converge])"
    using p(1) o r_def performRegistration_by_outcome [OF o] by blast
next
  fix evs msg evs'
  assume "float_cast E 1 = 1 \<and>
          cycle_converges E (fst (run E (fst (SmallGicpRelocalizationNode E options)) (evs @ Scan msg # evs')))"
  then show "\<exists>m. snd (publishTransform E (fst (performRegistration E (fst (run E (fst (SmallGicpRelocalizationNode E options)) (evs @ Scan msg # evs'))))))
                 = [sendTransform m]"
    by (simp add: converged_cycle_is_published)
qed

theorem failed_map_load_keeps_pipeline_running_witness:
  "fst (loadPCDFile demo_env (declare_and_get '''' (override_prior_pcd_file no_overrides)) []) = - 1 \<and>
   snd (SmallGicpRelocalizationNode demo_env no_overrides) = [RCLCPP_ERROR (Couldnt_read_PCD_file '''')] \<and>
   target (fst (run demo_env (fst (SmallGicpRelocalizationNode demo_env no_overrides))
                  [Scan scan_A, RegisterTimer, TransformTimer])) = [] \<and>
   alignment_outcome demo_env
     (fst (run demo_env (fst (SmallGicpRelocalizationNode demo_env no_overrides))
             ([] @ Scan scan_A # [RegisterTimer, TransformTimer])))
     = Some \<lparr>converged = True,
             T_target_source = Isometry3d_Identity\<lparr>translation_part := (1, 2, 3)\<rparr>\<rparr> \<and>
   alignment_outcome demo_env
     (fst (run demo_env (fst (SmallGicpRelocalizationNode demo_env no_overrides))
             ([TransformTimer] @ Scan scan_empty # [RegisterTimer, RegisterTimer])))
     = Some \<lparr>converged = False, T_target_source = Isometry3d_Identity\<rparr> \<and>
   snd (run demo_env (fst (SmallGicpRelocalizationNode demo_env no_overrides))
          [Scan scan_empty, RegisterTimer, RegisterTimer, RegisterTimer])
     = [RCLCPP_WARN GICP_did_not_converge, RCLCPP_WARN GICP_did_not_converge,
        RCLCPP_WARN GICP_did_not_converge] \<and>
   float_cast demo_env 1 = 1 \<and>
   cycle_converges demo_env
     (fst (run demo_env (fst (SmallGicpRelocalizationNode demo_env no_overrides))
             ([] @ Scan scan_A # [RegisterTimer, TransformTimer]))) \<and>
   transforms_sent (snd (publishTransform demo_env (fst (performRegistration demo_env
     (fst (run demo_env (fst (SmallGicpRelocalizationNode demo_env no_overrides))
             ([] @ Scan scan_A # [RegisterTimer, TransformTimer])))))))
     = [\<lparr>stamp = \<lparr>sec = 10, nanosec = 0\<rparr>, frame_id = ''map'', child_frame_id = ''odom'',
         transform_translation = (1, 2, 3),
         transform_rotation = \<lparr>qx = 0, qy = 0, qz = 0, qw = 1\<rparr>\<rparr>] \<and>
   snd (run demo_env (fst (SmallGicpRelocalizationNode demo_env no_overrides))
          [Scan scan_A, RegisterTimer, TransformTimer, RegisterTimer, TransformTimer])
     = [sendTransform
          \<lparr>stamp = \<lparr>sec = 10, nanosec = 0\<rparr>, frame_id = ''map'', child_frame_id = ''odom'',
           transform_translation = (1, 2, 3),
           transform_rotation = \<lparr>qx = 0, qy = 0, qz = 0, qw = 1\<rparr>\<rparr>,
        sendTransform
          \<lparr>stamp = \<lparr>sec = 10, nanosec = 0\<rparr>, frame_id = ''map'', child_frame_id = ''odom'',
           transform_translation = (1, 2, 3),
           transform_rotation = \<lparr>qx = 0, qy = 0, qz = 0, qw = 1\<rparr>\<rparr>]"
  using failed_map_load_keeps_pipeline_running [of demo_env no_overrides]
  by (simp add: node_defs demo_defs)

text \<open>
  The claim that after a failed load no alignment ever runs and nothing is ever
  published does not hold: with the unreadable empty file name, a cycle after an empty
  scan runs the solver and warns that it did not converge, and a cycle after a scan on
  which the solver converges is followed by a published transform.
\<close>

theorem failed_map_load_counterexample:
  "fst (loadPCDFile demo_env (prior_pcd_file demo_node) []) = - 1 \<and>
   snd (SmallGicpRelocalizationNode demo_env no_overrides) = [RCLCPP_ERROR (Couldnt_read_PCD_file '''')] \<and>
   snd (run demo_env demo_node [Scan scan_empty, RegisterTimer]) = [RCLCPP_WARN GICP_did_not_converge] \<and>
   snd (run demo_env demo_node [Scan scan_A, RegisterTimer, TransformTimer])
     = [sendTransform
          \<lparr>stamp = \<lparr>sec = 10, nanosec = 0\<rparr>, frame_id = ''map'', child_frame_id = ''odom'',
           transform_translation = (1, 2, 3),
           transform_rotation = \<lparr>qx = 0, qy = 0, qz = 0, qw = 1\<rparr>\<rparr>]"
  by (simp add: node_defs demo_defs)

section \<open>The header of the published transform\<close>

lemma step_last_scan_time_no_scan:
  "no_scan [ev] \<Longrightarrow> last_scan_time (fst (step E s ev)) = last_scan_time s"
  by (cases ev) (simp_all add: publishTransform_def performRegistration_keeps_publication)

lemma run_last_scan_time_no_scan:
  "no_scan evs \<Longrightarrow> last_scan_time (fst (run E s evs)) = last_scan_time s"
proof (induction evs arbitrary: s)
  case Nil
  then show ?case by simp
next
  case (Cons ev evs)
  from Cons.prems have ns: "no_scan [ev]" "no_scan evs" by (cases ev; simp)+
  show ?case
    using Cons.IH [OF ns(2)] step_last_scan_time_no_scan [OF ns(1), of E s]
    by (simp add: fst_run_Cons del: run.simps)
qed

lemma last_scan_time_after_scan:
  "no_scan evs' \<Longrightarrow> last_scan_time (fst (run E s (evs @ Scan msg # evs'))) = header_stamp msg"
  by (simp add: fst_run_append fst_run_Cons run_last_scan_time_no_scan registeredPcdCallback_def
        Let_def del: run.simps)

lemma no_scan_no_convergence:
  "no_scan evs \<Longrightarrow> source s = None \<Longrightarrow> no_convergence E s evs"
proof (induction evs arbitrary: s)
  case Nil
  then show ?case by simp
next
  case (Cons ev evs)
  from Cons.prems(1) have ns: "no_scan [ev]" "no_scan evs" by (cases ev; simp)+
  have "source (fst (step E s ev)) = None"
    using step_source_no_scan [OF ns(1), of E s] Cons.prems(2) by simp
  then have "no_convergence E (fst (step E s ev)) evs"
    using Cons.IH [OF ns(2)] by simp
  moreover have "\<not> cycle_converges E s"
    using Cons.prems(2) by (simp add: cycle_converges_def alignment_outcome_def)
  ultimately show ?case by (simp add: no_convergence_Cons)
qed

lemma constructed_frames:
  "map_frame_id (fst (SmallGicpRelocalizationNode E options))
     = declare_and_get ''map'' (override_map_frame_id options) \<and>
   odom_frame_id (fst (SmallGicpRelocalizationNode E options))
     = declare_and_get ''odom'' (override_odom_frame_id options)"
  by (simp add: SmallGicpRelocalizationNode_def Let_def)

text \<open>
  C4, as the code has it. A transform sent by a publish tick carries the stamp of the
  scan that arrived last before the tick (the callback overwrites \<open>last_scan_time\<close> on
  every scan, whether or not an alignment has used that scan), the configured
  \<open>map_frame_id\<close> as parent and the configured \<open>odom_frame_id\<close> as child; its
  translation and rotation are read from the stored \<open>result_T\<close>. Before the first
  scan nothing is sent.
\<close>

theorem published_stamp_is_latest_scan:
  "(no_scan evs' \<longrightarrow>
      transforms_sent (snd (publishTransform E
          (fst (run E (fst (SmallGicpRelocalizationNode E options)) (evs @ Scan msg # evs')))))
        = (if isZero (result_T
                 (fst (run E (fst (SmallGicpRelocalizationNode E options)) (evs @ Scan msg # evs'))))
           then []
           else [\<lparr>stamp = header_stamp msg,
                   frame_id = declare_and_get ''map'' (override_map_frame_id options),
                   child_frame_id = declare_and_get ''odom'' (override_odom_frame_id options),
                   transform_translation = block_3_1 (result_T
                     (fst (run E (fst (SmallGicpRelocalizationNode E options)) (evs @ Scan msg # evs')))),
                   transform_rotation = quaternion_of E (block_3_3 (result_T
                     (fst (run E (fst (SmallGicpRelocalizationNode E options)) (evs @ Scan msg # evs')))))\<rparr>]))
   \<and> (no_scan evs'' \<longrightarrow>
      transforms_sent (snd (run E (fst (SmallGicpRelocalizationNode E options)) evs'')) = [])"
proof (intro conjI impI)
  assume "no_scan evs'"
  then show "transforms_sent (snd (publishTransform E
          (fst (run E (fst (SmallGicpRelocalizationNode E options)) (evs @ Scan msg # evs')))))
        = (if isZero (result_T
                 (fst (run E (fst (SmallGicpRelocalizationNode E options)) (evs @ Scan msg # evs'))))
           then []
           else [\<lparr>stamp = header_stamp msg,
                   frame_id = declare_and_get ''map'' (override_map_frame_id options),
                   child_frame_id = declare_and_get ''odom'' (override_odom_frame_id options),
                   transform_translation = block_3_1 (result_T
                     (fst (run E (fst (SmallGicpRelocalizationNode E options)) (evs @ Scan msg # evs')))),
                   transform_rotation = quaternion_of E (block_3_3 (result_T
                     (fst (run E (fst (SmallGicpRelocalizationNode E options)) (evs @ Scan msg # evs')))))\<rparr>])"
    by (simp only: publishTransform_sent last_scan_time_after_scan run_keeps_configuration
          constructed_frames)
next
  assume "no_scan evs''"
  then have "no_convergence E (fst (SmallGicpRelocalizationNode E options)) evs''"
    by (rule no_scan_no_convergence) (rule constructed_source)
  then show "transforms_sent (snd (run E (fst (SmallGicpRelocalizationNode E options)) evs'')) = []"
    by (rule run_sent_no_convergence) (simp add: constructed_result_T isZero_initial)
qed

theorem published_stamp_is_latest_scan_witness:
  "no_scan [TransformTimer] \<and>
   transforms_sent (snd (publishTransform demo_env
       (fst (run demo_env (fst (SmallGicpRelocalizationNode demo_env no_overrides))
               ([Scan scan_A, RegisterTimer] @ Scan scan_B # [TransformTimer])))))
     = [\<lparr>stamp = \<lparr>sec = 11, nanosec = 500\<rparr>, frame_id = ''map'', child_frame_id = ''odom'',
         transform_translation = (1, 2, 3),
         transform_rotation = \<lparr>qx = 0, qy = 0, qz = 0, qw = 1\<rparr>\<rparr>] \<and>
   no_scan [RegisterTimer, TransformTimer] \<and>
   transforms_sent (snd (run demo_env (fst (SmallGicpRelocalizationNode demo_env no_overrides))
                           [RegisterTimer, TransformTimer])) = []"
  using published_stamp_is_latest_scan
          [of "[TransformTimer]" demo_env no_overrides "[Scan scan_A, RegisterTimer]" scan_B
              "[RegisterTimer, TransformTimer]"]
  by (simp add: node_defs demo_defs)

text \<open>
  The stamp is not always that of the scan that produced the stored transform: the
  transform stored by the cycle after scan A (translation \<open>(1, 2, 3)\<close>, stamp 10 s) is
  published, once scan B has arrived, with the stamp of scan B (11 s, 500 ns).
\<close>

theorem published_stamp_counterexample:
  "result_T (fst (run demo_env demo_node [Scan scan_A, RegisterTimer]))
     = ((1, 0, 0, 1), (0, 1, 0, 2), (0, 0, 1, 3), (0, 0, 0, 1)) \<and>
   header_stamp scan_A = \<lparr>sec = 10, nanosec = 0\<rparr> \<and>
   header_stamp scan_B = \<lparr>sec = 11, nanosec = 500\<rparr> \<and>
   snd (run demo_env demo_node [Scan scan_A, RegisterTimer, Scan scan_B, TransformTimer])
     = [sendTransform
          \<lparr>stamp = \<lparr>sec = 11, nanosec = 500\<rparr>, frame_id = ''map'', child_frame_id = ''odom'',
           transform_translation = (1, 2, 3),
           transform_rotation = \<lparr>qx = 0, qy = 0, qz = 0, qw = 1\<rparr>\<rparr>] \<and>
   stamp (hd (transforms_sent
       (snd (run demo_env demo_node [Scan scan_A, RegisterTimer, Scan scan_B, TransformTimer]))))
     \<noteq> header_stamp scan_A"
  by (simp add: node_defs demo_defs)

section \<open>The initial guess\<close>

text \<open>
  C7. The alignment cycle calls the solver with the identity as initial guess: the
  cycle is the same for any two solvers that agree on that guess, and neither the
  solver's outcome nor what the cycle logs depends on the stored \<open>result_T\<close>; when the
  solver converges, the node after the cycle does not depend on it either.
\<close>

theorem solver_is_seeded_with_identity:
  "((\<forall>reg tgt src tree.
        a reg tgt src tree Isometry3d_Identity = align E reg tgt src tree Isometry3d_Identity) \<longrightarrow>
      performRegistration (E\<lparr>align := a\<rparr>) s = performRegistration E s)
   \<and> alignment_outcome E (s\<lparr>result_T := M\<rparr>) = alignment_outcome E s
   \<and> snd (performRegistration E (s\<lparr>result_T := M\<rparr>)) = snd (performRegistration E s)
   \<and> (cycle_converges E s \<longrightarrow>
        fst (performRegistration E (s\<lparr>result_T := M\<rparr>)) = fst (performRegistration E s))"
proof (intro conjI impI)
  assume h: "\<forall>reg tgt src tree.
        a reg tgt src tree Isometry3d_Identity = align E reg tgt src tree Isometry3d_Identity"
  have o: "alignment_outcome (E\<lparr>align := a\<rparr>) s = alignment_outcome E s"
    by (cases "source s"; cases "source_tree s") (simp_all add: alignment_outcome_def h)
  have c: "float_cast (E\<lparr>align := a\<rparr>) = float_cast E"
    by simp
  show "performRegistration (E\<lparr>align := a\<rparr>) s = performRegistration E s"
    by (simp only: performRegistration_outcome o c)
next
  show o: "alignment_outcome E (s\<lparr>result_T := M\<rparr>) = alignment_outcome E s"
    by (cases "source s"; cases "source_tree s") (simp_all add: alignment_outcome_def)
  show "snd (performRegistration E (s\<lparr>result_T := M\<rparr>)) = snd (performRegistration E s)"
    by (cases "alignment_outcome E s") (simp_all add: performRegistration_outcome o)
  assume "cycle_converges E s"
  then obtain r where r: "alignment_outcome E s = Some r" "converged r"
    by (auto simp: cycle_converges_outcome)
  show "fst (performRegistration E (s\<lparr>result_T := M\<rparr>)) = fst (performRegistration E s)"
    by (simp add: performRegistration_outcome o r)
qed

theorem solver_is_seeded_with_identity_witness:
  "(\<forall>reg tgt src tree.
      demo_align_cold reg tgt src tree Isometry3d_Identity
        = align demo_env reg tgt src tree Isometry3d_Identity) \<and>
   T_target_source (demo_align_cold (new_Registration demo_env) [] [] (KdTree [] 4) quarter_turn)
     \<noteq> T_target_source (align demo_env (new_Registration demo_env) [] [] (KdTree [] 4) quarter_turn) \<and>
   performRegistration (demo_env\<lparr>align := demo_align_cold\<rparr>)
       (fst (run demo_env demo_node [Scan scan_A, RegisterTimer, Scan scan_B]))
     = performRegistration demo_env
         (fst (run demo_env demo_node [Scan scan_A, RegisterTimer, Scan scan_B])) \<and>
   cycle_converges demo_env (fst (run demo_env demo_node [Scan scan_A, RegisterTimer, Scan scan_B])) \<and>
   result_T (fst (run demo_env demo_node [Scan scan_A, RegisterTimer, Scan scan_B]))
     = ((1, 0, 0, 1), (0, 1, 0, 2), (0, 0, 1, 3), (0, 0, 0, 1)) \<and>
   alignment_outcome demo_env (fst (run demo_env demo_node [Scan scan_A, RegisterTimer, Scan scan_B]))
     = Some \<lparr>converged = True,
             T_target_source = Isometry3d_Identity\<lparr>translation_part := (7, 8, 9)\<rparr>\<rparr> \<and>
   fst (performRegistration demo_env
          ((fst (run demo_env demo_node [Scan scan_A, RegisterTimer, Scan scan_B]))
             \<lparr>result_T := Matrix4f_Identity\<rparr>))
     = fst (performRegistration demo_env
              (fst (run demo_env demo_node [Scan scan_A, RegisterTimer, Scan scan_B])))"
  using solver_is_seeded_with_identity
          [of demo_align_cold demo_env
              "fst (run demo_env demo_node [Scan scan_A, RegisterTimer, Scan scan_B])"
              Matrix4f_Identity]
  by (simp add: node_defs demo_defs)

section \<open>Parameters at startup\<close>

text \<open>
  C8, as the code has it. The constructor stores each numeric parameter as supplied,
  or its default when none is supplied, whatever the value; it builds the target and
  its index with these values, and the only thing it reports is the one message about
  loading the map. The stored values are the ones the pipeline uses afterwards: every
  scan is downsampled with the stored \<open>registered_leaf_size\<close>, its covariances and
  index are computed with the stored \<open>num_neighbors\<close> and \<open>num_threads\<close>, and every
  alignment cycle that runs writes the stored \<open>num_threads\<close> and \<open>max_dist_sq\<close> into
  the solver.
\<close>

theorem parameters_are_stored_as_supplied:
  "num_threads (fst (SmallGicpRelocalizationNode E options))
     = (case override_num_threads options of None \<Rightarrow> 4 | Some v \<Rightarrow> v) \<and>
   num_neighbors (fst (SmallGicpRelocalizationNode E options))
     = (case override_num_neighbors options of None \<Rightarrow> 20 | Some v \<Rightarrow> v) \<and>
   global_leaf_size (fst (SmallGicpRelocalizationNode E options))
     = (case override_global_leaf_size options of None \<Rightarrow> 0.25 | Some v \<Rightarrow> v) \<and>
   registered_leaf_size (fst (SmallGicpRelocalizationNode E options))
     = (case override_registered_leaf_size options of None \<Rightarrow> 0.25 | Some v \<Rightarrow> v) \<and>
   max_dist_sq (fst (SmallGicpRelocalizationNode E options))
     = (case override_max_dist_sq options of None \<Rightarrow> 1.0 | Some v \<Rightarrow> v) \<and>
   target (fst (SmallGicpRelocalizationNode E options))
     = estimate_covariances_omp E
         (voxelgrid_sampling_omp E (global_map (fst (SmallGicpRelocalizationNode E options)))
            (global_leaf_size (fst (SmallGicpRelocalizationNode E options))))
         (num_neighbors (fst (SmallGicpRelocalizationNode E options)))
         (num_threads (fst (SmallGicpRelocalizationNode E options))) \<and>
   target_tree (fst (SmallGicpRelocalizationNode E options))
     = KdTree (target (fst (SmallGicpRelocalizationNode E options)))
         (num_threads (fst (SmallGicpRelocalizationNode E options))) \<and>
   load_reports (snd (SmallGicpRelocalizationNode E options))
     = snd (SmallGicpRelocalizationNode E options) \<and>
   length (snd (SmallGicpRelocalizationNode E options)) = 1 \<and>
   (\<forall>evs msg.
      source (fst (registeredPcdCallback E (fst (run E (fst (SmallGicpRelocalizationNode E options)) evs)) msg))
       = Some (estimate_covariances_omp E
                     (voxelgrid_sampling_omp E (fromROSMsg E msg)
                        (registered_leaf_size (fst (SmallGicpRelocalizationNode E options))))
                     (num_neighbors (fst (SmallGicpRelocalizationNode E options)))
                     (num_threads (fst (SmallGicpRelocalizationNode E options)))) \<and>
      source_tree (fst (registeredPcdCallback E (fst (run E (fst (SmallGicpRelocalizationNode E options)) evs)) msg))
       = Some (KdTree (estimate_covariances_omp E
                     (voxelgrid_sampling_omp E (fromROSMsg E msg)
                        (registered_leaf_size (fst (SmallGicpRelocalizationNode E options))))
                     (num_neighbors (fst (SmallGicpRelocalizationNode E options)))
                     (num_threads (fst (SmallGicpRelocalizationNode E options))))
                 (num_threads (fst (SmallGicpRelocalizationNode E options))))) \<and>
   (\<forall>evs msg evs'.
      reduction_num_threads (register (fst (performRegistration E (fst (run E (fst (SmallGicpRelocalizationNode E options)) (evs @ Scan msg # evs'))))))
       = num_threads (fst (SmallGicpRelocalizationNode E options)) \<and>
      rejector_max_dist_sq (register (fst (performRegistration E (fst (run E (fst (SmallGicpRelocalizationNode E options)) (evs @ Scan msg # evs'))))))
       = max_dist_sq (fst (SmallGicpRelocalizationNode E options)))"
proof (intro conjI allI)
  show "num_threads (fst (SmallGicpRelocalizationNode E options))
     = (case override_num_threads options of None \<Rightarrow> 4 | Some v \<Rightarrow> v)"
    by (simp add: SmallGicpRelocalizationNode_def declare_and_get_def Let_def)
  show "num_neighbors (fst (SmallGicpRelocalizationNode E options))
     = (case override_num_neighbors options of None \<Rightarrow> 20 | Some v \<Rightarrow> v)"
    by (simp add: SmallGicpRelocalizationNode_def declare_and_get_def Let_def)
  show "global_leaf_size (fst (SmallGicpRelocalizationNode E options))
     = (case override_global_leaf_size options of None \<Rightarrow> 0.25 | Some v \<Rightarrow> v)"
    by (simp add: SmallGicpRelocalizationNode_def declare_and_get_def Let_def split: option.splits)
  show "registered_leaf_size (fst (SmallGicpRelocalizationNode E options))
     = (case override_registered_leaf_size options of None \<Rightarrow> 0.25 | Some v \<Rightarrow> v)"
    by (simp add: SmallGicpRelocalizationNode_def declare_and_get_def Let_def split: option.splits)
  show "max_dist_sq (fst (SmallGicpRelocalizationNode E options))
     = (case override_max_dist_sq options of None \<Rightarrow> 1.0 | Some v \<Rightarrow> v)"
    by (simp add: SmallGicpRelocalizationNode_def declare_and_get_def Let_def split: option.splits)
  show "target (fst (SmallGicpRelocalizationNode E options))
     = estimate_covariances_omp E
         (voxelgrid_sampling_omp E (global_map (fst (SmallGicpRelocalizationNode E options)))
            (global_leaf_size (fst (SmallGicpRelocalizationNode E options))))
         (num_neighbors (fst (SmallGicpRelocalizationNode E options)))
         (num_threads (fst (SmallGicpRelocalizationNode E options)))"
    by (simp add: SmallGicpRelocalizationNode_def Let_def)
  show "target_tree (fst (SmallGicpRelocalizationNode E options))
     = KdTree (target (fst (SmallGicpRelocalizationNode E options)))
         (num_threads (fst (SmallGicpRelocalizationNode E options)))"
    by (simp add: SmallGicpRelocalizationNode_def Let_def)
  show "load_reports (snd (SmallGicpRelocalizationNode E options))
     = snd (SmallGicpRelocalizationNode E options)"
    by (simp add: SmallGicpRelocalizationNode_def loadGlobalMap_def Let_def split: prod.splits)
  show "length (snd (SmallGicpRelocalizationNode E options)) = 1"
    by (simp add: SmallGicpRelocalizationNode_def loadGlobalMap_def Let_def split: prod.splits)
next
  fix evs msg
  show "source (fst (registeredPcdCallback E (fst (run E (fst (SmallGicpRelocalizationNode E options)) evs)) msg))
       = Some (estimate_covariances_omp E
                     (voxelgrid_sampling_omp E (fromROSMsg E msg)
                        (registered_leaf_size (fst (SmallGicpRelocalizationNode E options))))
                     (num_neighbors (fst (SmallGicpRelocalizationNode E options)))
                     (num_threads (fst (SmallGicpRelocalizationNode E options))))"
    by (simp add: registeredPcdCallback_def Let_def run_keeps_parameters)
  show "source_tree (fst (registeredPcdCallback E (fst (run E (fst (SmallGicpRelocalizationNode E options)) evs)) msg))
       = Some (KdTree (estimate_covariances_omp E
                     (voxelgrid_sampling_omp E (fromROSMsg E msg)
                        (registered_leaf_size (fst (SmallGicpRelocalizationNode E options))))
                     (num_neighbors (fst (SmallGicpRelocalizationNode E options)))
                     (num_threads (fst (SmallGicpRelocalizationNode E options))))
                 (num_threads (fst (SmallGicpRelocalizationNode E options))))"
    by (simp add: registeredPcdCallback_def Let_def run_keeps_parameters)
next
  fix evs msg evs'
  obtain src tr where p:
    "source (fst (run E (fst (SmallGicpRelocalizationNode E options)) (evs @ Scan msg # evs'))) = Some src"
    "source_tree (fst (run E (fst (SmallGicpRelocalizationNode E options)) (evs @ Scan msg # evs'))) = Some tr"
    using source_present_after_scan by blast
  show "reduction_num_threads (register (fst (performRegistration E (fst (run E (fst (SmallGicpRelocalizationNode E options)) (evs @ Scan msg # evs'))))))
       = num_threads (fst (SmallGicpRelocalizationNode E options))"
    by (simp add: performRegistration_outcome alignment_outcome_present [OF p]
          run_keeps_parameters)
  show "rejector_max_dist_sq (register (fst (performRegistration E (fst (run E (fst (SmallGicpRelocalizationNode E options)) (evs @ Scan msg # evs'))))))
       = max_dist_sq (fst (SmallGicpRelocalizationNode E options))"
    by (simp add: performRegistration_outcome alignment_outcome_present [OF p]
          run_keeps_parameters)
qed

text \<open>
  No value is checked or rejected: zero threads, a negative number of neighbours, a
  negative and a zero leaf size and a negative distance threshold are stored, used to
  build the index, and written into the solver's settings by the alignment cycle.
\<close>

theorem invalid_parameters_counterexample:
  "num_threads (fst (SmallGicpRelocalizationNode demo_env invalid_options)) = 0 \<and>
   num_neighbors (fst (SmallGicpRelocalizationNode demo_env invalid_options)) = - 3 \<and>
   global_leaf_size (fst (SmallGicpRelocalizationNode demo_env invalid_options)) = - 1 \<and>
   registered_leaf_size (fst (SmallGicpRelocalizationNode demo_env invalid_options)) = 0 \<and>
   max_dist_sq (fst (SmallGicpRelocalizationNode demo_env invalid_options)) = - 2 \<and>
   snd (SmallGicpRelocalizationNode demo_env invalid_options) = [RCLCPP_INFO (Loaded_global_map 1)] \<and>
   builder_num_threads (target_tree (fst (SmallGicpRelocalizationNode demo_env invalid_options))) = 0 \<and>
   run demo_env (fst (SmallGicpRelocalizationNode demo_env invalid_options)) [Scan scan_A, RegisterTimer]
     = ((fst (SmallGicpRelocalizationNode demo_env invalid_options))
          \<lparr>last_scan_time := header_stamp scan_A,
           registered_scan := [(1, 2, 3)],
           source := Some [demo_point (1, 2, 3)],
           source_tree := Some (KdTree [demo_point (1, 2, 3)] 0),
           register := \<lparr>reduction_num_threads = 0, rejector_max_dist_sq = - 2\<rparr>,
           result_T := ((1, 0, 0, 1), (0, 1, 0, 2), (0, 0, 1, 3), (0, 0, 0, 1))\<rparr>,
        [])"
  by (simp add: node_defs demo_defs)

end
